theory Spec2Isabelle
  imports Main
begin

section \<open>JavaScript values, errors and the native storage objects\<close>

text \<open>
  The values the helper receives from its caller: documents, keys and setter arguments.
  An object is the list of its own properties; inherited properties are outside the model.
\<close>

datatype js_value =
    JUndefined
  | JNull
  | JNum int
  | JStr string
  | JObj "(string \<times> js_value) list"

text \<open>The three kinds of error the helper throws or passes on.\<close>

datatype js_error =
    TypeError string
  | Error string
  | DOMException string

text \<open>\<open>IDBObjectStore.keyPath\<close> has the type \<open>string | string[] | null\<close>.\<close>

datatype key_path =
    KeyPathNull
  | KeyPathString string
  | KeyPathArray "string list"

text \<open>
  An object store as the helper sees it: its key path, its indexes (name and key path;
  \<open>indexNames\<close> lists the names) and the documents it holds. The stores here
  have no key generator and their indexes are plain (neither unique nor multi-entry),
  as in the database of the repository's tests.
\<close>

record idb_object_store =
  keyPath :: key_path
  indexes :: "(string \<times> key_path) list"
  records :: "js_value list"

definition indexNames :: "idb_object_store \<Rightarrow> string list" where
  "indexNames objectStore = map fst (indexes objectStore)"

text \<open>
  A database connection: the stores of the database, and whether the connection has been
  closed. A closed connection is still an \<open>IDBDatabase\<close> object.
\<close>

record idb_database =
  objectStores :: "(string \<times> idb_object_store) list"
  closed :: bool

text \<open>What the caller hands to the constructor as \<open>databaseInstance\<close>.\<close>

datatype js_ref =
    IDBDatabaseInstance idb_database
  | NotIDBDatabase js_value

datatype tx_mode = Readonly | Readwrite

text \<open>What \<open>resolveStoreOrIndex\<close> returns: the object store, or one of its indexes.\<close>

datatype idb_source =
    IDBObjectStore string idb_object_store
  | IDBIndex string string key_path

datatype idb_request =
    GetAll
  | Add js_value
  | Put js_value
  | Delete js_value
  | Clear

text \<open>
  Every call the helper makes into the storage engine, in order. \<open>Request\<close> is the
  one kind of call that creates a native request (\<open>getAll\<close>, \<open>add\<close>,
  \<open>put\<close>, \<open>delete\<close>, \<open>clear\<close>); \<open>Refused\<close> is such a call
  that threw instead, with the error thrown, so that no request exists. The others open
  the transaction and look the store or index up.
\<close>

datatype native_call =
    Transaction "string list" tx_mode string
  | ObjectStore string
  | Index string
  | Request idb_source idb_request
  | Refused idb_source idb_request js_error

subsection \<open>Keys\<close>

text \<open>
  The engine's rules for keys, from the IndexedDB standard and restricted to the values
  above. A number or a string is a valid key; undefined, null and an object are not.
\<close>

fun valid_key :: "js_value \<Rightarrow> bool" where
  "valid_key (JNum n) = True"
| "valid_key (JStr s) = True"
| "valid_key v = False"

text \<open>
  A key path is split at its dots into identifiers, which are followed from the document
  inwards through own properties. The identifier \<open>length\<close> of a string is its length.
  \<open>JUndefined\<close> stands for a path that cannot be followed.
\<close>

fun split_dots :: "string \<Rightarrow> string list" where
  "split_dots [] = [[]]"
| "split_dots (c # cs) =
     (if c = CHR ''.'' then [] # split_dots cs
      else (case split_dots cs of [] \<Rightarrow> [[c]] | w # ws \<Rightarrow> (c # w) # ws))"

fun evaluate_identifiers :: "string list \<Rightarrow> js_value \<Rightarrow> js_value" where
  "evaluate_identifiers [] v = v"
| "evaluate_identifiers (i # ids) v =
     (case v of
        JStr s \<Rightarrow>
          (if i = ''length'' then evaluate_identifiers ids (JNum (int (length s)))
           else JUndefined)
      | JObj props \<Rightarrow>
          (case map_of props i of
             None \<Rightarrow> JUndefined
           | Some x \<Rightarrow> evaluate_identifiers ids x)
      | _ \<Rightarrow> JUndefined)"

text \<open>The empty key path stands for the document itself.\<close>

definition evaluate_key_path :: "string \<Rightarrow> js_value \<Rightarrow> js_value" where
  "evaluate_key_path k doc = (if k = [] then doc else evaluate_identifiers (split_dots k) doc)"

text \<open>
  The key a document carries at a key path, if it carries a valid one: one component for
  a string key path, one for each member of an array key path.
\<close>

definition extract_key :: "key_path \<Rightarrow> js_value \<Rightarrow> js_value list option" where
  "extract_key kp doc =
     (case kp of
        KeyPathNull \<Rightarrow> None
      | KeyPathString k \<Rightarrow>
          (if valid_key (evaluate_key_path k doc) then Some [evaluate_key_path k doc] else None)
      | KeyPathArray ks \<Rightarrow>
          (if list_all (\<lambda>k. valid_key (evaluate_key_path k doc)) ks
           then Some (map (\<lambda>k. evaluate_key_path k doc) ks) else None))"

text \<open>
  What a method of a store or index throws instead of creating a request: \<open>add\<close>
  and \<open>put\<close> throw a DataError for a document that carries no valid key at the
  store's key path (a store without key path has out-of-line keys, and the helper passes
  none), \<open>delete\<close> throws one for an argument that is not a valid key, and an index
  has \<open>getAll\<close> only. Key ranges are outside the values above.
\<close>

fun native_refusal :: "idb_source \<Rightarrow> idb_request \<Rightarrow> js_error option" where
  "native_refusal (IDBObjectStore n objectStore) GetAll = None"
| "native_refusal (IDBObjectStore n objectStore) (Add doc) =
     (if extract_key (keyPath objectStore) doc = None then Some (DOMException ''DataError'')
      else None)"
| "native_refusal (IDBObjectStore n objectStore) (Put doc) =
     (if extract_key (keyPath objectStore) doc = None then Some (DOMException ''DataError'')
      else None)"
| "native_refusal (IDBObjectStore n objectStore) (Delete k) =
     (if valid_key k then None else Some (DOMException ''DataError''))"
| "native_refusal (IDBObjectStore n objectStore) Clear = None"
| "native_refusal (IDBIndex n h kp) GetAll = None"
| "native_refusal (IDBIndex n h kp) req = Some (TypeError ''an index has no such method'')"

section \<open>Promises and the callbacks an operation registers\<close>

text \<open>
  \<open>request.result\<close>: undefined, the key of the record written (\<open>ResultKeys\<close>
  for the key of an array key path), or the rows read.
\<close>

datatype request_result =
    ResultUndefined
  | ResultKey js_value
  | ResultKeys "js_value list"
  | ResultRows "js_value list"

text \<open>
  The events the engine delivers after the synchronous part of an operation:
  the request's \<open>success\<close> (with \<open>request.result\<close>) and \<open>error\<close> (with
  \<open>request.error\<close>, which may be null), and the transaction's \<open>complete\<close>,
  \<open>error\<close> and \<open>abort\<close> (with \<open>transaction.error\<close>, which may be null).
\<close>

datatype idb_event =
    RequestSuccess request_result
  | RequestError "js_error option"
  | TransactionComplete
  | TransactionError "js_error option"
  | TransactionAbort "js_error option"

datatype promise =
    Pending
  | Resolved request_result
  | Rejected "js_error option"

text \<open>A promise settles once: later calls of \<open>resolve\<close> and \<open>reject\<close> do nothing.\<close>

fun resolve :: "request_result \<Rightarrow> promise \<Rightarrow> promise" where
  "resolve v Pending = Resolved v"
| "resolve v p = p"

fun reject :: "js_error option \<Rightarrow> promise \<Rightarrow> promise" where
  "reject e Pending = Rejected e"
| "reject e p = p"

text \<open>The bodies the source assigns to \<open>request.onsuccess\<close> and \<open>transaction.oncomplete\<close>.\<close>

datatype on_success =
    SuccessUnset
  | SuccessResolveResult
  | SuccessResolveVoid
  | SuccessStoreResult

datatype on_complete =
    CompleteUnset
  | CompleteResolveVoid
  | CompleteResolveStored

text \<open>
  The handlers of one execution. \<open>request_onerror\<close> is always
  \<open>reject(request.error || new Error(message))\<close> and holds the message;
  \<open>transaction_onerror\<close> and \<open>transaction_onabort\<close> say whether
  \<open>reject(transaction.error)\<close> is registered.
\<close>

record callbacks =
  request_onsuccess :: on_success
  request_onerror :: string
  transaction_oncomplete :: on_complete
  transaction_onerror :: bool
  transaction_onabort :: bool

definition or_else :: "js_error option \<Rightarrow> js_error \<Rightarrow> js_error" where
  "or_else e fallback = (case e of Some x \<Rightarrow> x | None \<Rightarrow> fallback)"

text \<open>
  One event reaching the handlers. The state is the promise and the local variable
  \<open>result\<close> of the compiled \<open>executeRead\<close> (undefined until a success stores it).
\<close>

fun fire :: "callbacks \<Rightarrow> idb_event \<Rightarrow> promise \<times> request_result \<Rightarrow> promise \<times> request_result" where
  "fire cb (RequestSuccess r) (p, res) =
     (case request_onsuccess cb of
        SuccessUnset \<Rightarrow> (p, res)
      | SuccessResolveResult \<Rightarrow> (resolve r p, res)
      | SuccessResolveVoid \<Rightarrow> (resolve ResultUndefined p, res)
      | SuccessStoreResult \<Rightarrow> (p, r))"
| "fire cb (RequestError e) (p, res) =
     (reject (Some (or_else e (Error (request_onerror cb)))) p, res)"
| "fire cb TransactionComplete (p, res) =
     (case transaction_oncomplete cb of
        CompleteUnset \<Rightarrow> (p, res)
      | CompleteResolveVoid \<Rightarrow> (resolve ResultUndefined p, res)
      | CompleteResolveStored \<Rightarrow>
          (if res = ResultUndefined
           then (reject (Some (Error ''Read operation completed without result'')) p, res)
           else (resolve res p, res)))"
| "fire cb (TransactionError e) (p, res) =
     (if transaction_onerror cb then (reject e p, res) else (p, res))"
| "fire cb (TransactionAbort e) (p, res) =
     (if transaction_onabort cb then (reject e p, res) else (p, res))"

fun deliver :: "callbacks \<Rightarrow> idb_event list \<Rightarrow> promise \<times> request_result \<Rightarrow> promise \<times> request_result" where
  "deliver cb [] s = s"
| "deliver cb (ev # evs) s = deliver cb evs (fire cb ev s)"

section \<open>The DbAction instance\<close>

definition DB_ACTIONS_READ :: string where "DB_ACTIONS_READ = ''READ''"
definition DB_ACTIONS_WRITE :: string where "DB_ACTIONS_WRITE = ''WRITE''"
definition DB_ACTIONS_UPDATE :: string where "DB_ACTIONS_UPDATE = ''UPDATE''"
definition DB_ACTIONS_DELETE :: string where "DB_ACTIONS_DELETE = ''DELETE''"
definition DB_ACTIONS_CLEAR :: string where "DB_ACTIONS_CLEAR = ''CLEAR''"

definition DB_ACTIONS :: "(string \<times> string) list" where
  "DB_ACTIONS =
     [(''READ'', DB_ACTIONS_READ), (''WRITE'', DB_ACTIONS_WRITE),
      (''UPDATE'', DB_ACTIONS_UPDATE), (''DELETE'', DB_ACTIONS_DELETE),
      (''CLEAR'', DB_ACTIONS_CLEAR)]"

definition Object_values :: "(string \<times> string) list \<Rightarrow> string list" where
  "Object_values obj = map snd obj"

fun join_strings :: "string \<Rightarrow> string list \<Rightarrow> string" where
  "join_strings sep [] = []"
| "join_strings sep [x] = x"
| "join_strings sep (x # y # ys) = x @ sep @ join_strings sep (y # ys)"

text \<open>
  The fields of the class. \<open>hintIndex\<close> is \<open>None\<close> while undefined;
  \<open>updateDoc\<close> and \<open>deleteDoc\<close> are \<open>JUndefined\<close> while unset.
\<close>

record db_action =
  action :: string
  databaseInstance :: idb_database
  storeName :: string
  hintIndex :: "string option"
  durability :: string
  updateDoc :: js_value
  deleteDoc :: js_value

definition DbAction_constructor :: "string \<Rightarrow> js_ref \<Rightarrow> js_value \<Rightarrow> js_error + db_action" where
  "DbAction_constructor act dbRef name =
     (case dbRef of
        NotIDBDatabase v \<Rightarrow> Inl (TypeError ''databaseInstance must be a valid IDBDatabase instance'')
      | IDBDatabaseInstance db \<Rightarrow>
          (case name of
             JStr s \<Rightarrow>
               (if length s = 0 then Inl (TypeError ''storeName must be a non-empty string'')
                else Inr \<lparr>action = act, databaseInstance = db, storeName = s,
                          hintIndex = None, durability = ''relaxed'',
                          updateDoc = JUndefined, deleteDoc = JUndefined\<rparr>)
           | _ \<Rightarrow> Inl (TypeError ''storeName must be a non-empty string'')))"

definition configureIndexHint :: "js_value \<Rightarrow> db_action \<Rightarrow> js_error + db_action" where
  "configureIndexHint indexName this =
     (case indexName of
        JStr s \<Rightarrow>
          (if length s = 0 then Inl (TypeError ''indexName must be a non-empty string'')
           else Inr (this\<lparr>hintIndex := Some s\<rparr>))
      | _ \<Rightarrow> Inl (TypeError ''indexName must be a non-empty string''))"

definition configureDurability :: "js_value \<Rightarrow> db_action \<Rightarrow> js_error + db_action" where
  \<open>configureDurability d this =
     (if d = JStr ''strict'' then Inr (this\<lparr>durability := ''strict''\<rparr>)
      else if d = JStr ''relaxed'' then Inr (this\<lparr>durability := ''relaxed''\<rparr>)
      else Inl (TypeError ''durability must be either "strict" or "relaxed"''))\<close>

definition setDocumentData :: "js_value \<Rightarrow> db_action \<Rightarrow> js_error + db_action" where
  "setDocumentData doc this = Inr (this\<lparr>updateDoc := doc\<rparr>)"

definition setDeleteKey :: "js_value \<Rightarrow> db_action \<Rightarrow> js_error + db_action" where
  "setDeleteKey deleteKey this = Inr (this\<lparr>deleteDoc := deleteKey\<rparr>)"

section \<open>Executing an action: the synchronous part\<close>

text \<open>
  What one call of \<open>execute\<close> has done when it returns its promise: the instance
  as the call leaves it, the calls made into the engine, and either the error thrown
  (the promise of an async function is then rejected with it) or the handlers registered.
\<close>

record execution =
  this_after :: db_action
  calls :: "native_call list"
  outcome :: "js_error + callbacks"

definition throws :: "db_action \<Rightarrow> native_call list \<Rightarrow> js_error \<Rightarrow> execution" where
  "throws this cs e = \<lparr>this_after = this, calls = cs, outcome = Inl e\<rparr>"

definition returns :: "db_action \<Rightarrow> native_call list \<Rightarrow> callbacks \<Rightarrow> execution" where
  "returns this cs cb = \<lparr>this_after = this, calls = cs, outcome = Inr cb\<rparr>"

text \<open>The native requests among the calls, each with the store or index it goes to.\<close>

fun requests :: "native_call list \<Rightarrow> (idb_source \<times> idb_request) list" where
  "requests [] = []"
| "requests (Request src req # cs) = (src, req) # requests cs"
| "requests (c # cs) = requests cs"

text \<open>
  The calls of \<open>getAll\<close>, \<open>add\<close>, \<open>put\<close>, \<open>delete\<close> and
  \<open>clear\<close> among the calls, whether they created a request or threw.
\<close>

fun attempts :: "native_call list \<Rightarrow> (idb_source \<times> idb_request) list" where
  "attempts [] = []"
| "attempts (Request src req # cs) = (src, req) # attempts cs"
| "attempts (Refused src req e # cs) = (src, req) # attempts cs"
| "attempts (c # cs) = attempts cs"

text \<open>
  A call of \<open>getAll\<close>, \<open>add\<close>, \<open>put\<close>, \<open>delete\<close> or
  \<open>clear\<close> followed by \<open>return new Promise(...)\<close>: the call throws what the
  engine refuses it with, or the request exists and the handlers are registered.
\<close>

definition issue :: "db_action \<Rightarrow> native_call list \<Rightarrow> idb_source \<Rightarrow> idb_request \<Rightarrow> callbacks \<Rightarrow> execution" where
  "issue this cs store req cb =
     (case native_refusal store req of
        Some e \<Rightarrow> throws this (cs @ [Refused store req e]) e
      | None \<Rightarrow> returns this (cs @ [Request store req]) cb)"

text \<open>
  \<open>resolveStoreOrIndex\<close> of src/DbAction.ts. The engine's \<open>transaction\<close> throws
  an InvalidStateError on a closed connection and a NotFoundError for a store the database
  does not have, and so does \<open>index\<close> for a missing index (which the
  \<open>contains\<close> test excludes).
\<close>

definition resolveStoreOrIndex :: "db_action \<Rightarrow> tx_mode \<Rightarrow> bool \<Rightarrow> native_call list \<times> (js_error + idb_source)" where
  "resolveStoreOrIndex this transactionMode allowIndex =
     (let transaction = Transaction [storeName this] transactionMode (durability this) in
      if closed (databaseInstance this)
      then ([transaction], Inl (DOMException ''InvalidStateError''))
      else
      case map_of (objectStores (databaseInstance this)) (storeName this) of
        None \<Rightarrow> ([transaction], Inl (DOMException ''NotFoundError''))
      | Some objectStore \<Rightarrow>
          (case hintIndex this of
             None \<Rightarrow>
               ([transaction, ObjectStore (storeName this)],
                Inr (IDBObjectStore (storeName this) objectStore))
           | Some h \<Rightarrow>
               (if allowIndex \<and> h \<noteq> [] \<and> h \<in> set (indexNames objectStore)
                then
                  (case map_of (indexes objectStore) h of
                     None \<Rightarrow>
                       ([transaction, ObjectStore (storeName this), Index h],
                        Inl (DOMException ''NotFoundError''))
                   | Some kp \<Rightarrow>
                       ([transaction, ObjectStore (storeName this), Index h],
                        Inr (IDBIndex (storeName this) h kp)))
                else
                  ([transaction, ObjectStore (storeName this)],
                   Inr (IDBObjectStore (storeName this) objectStore)))))"

text \<open>\<open>store.keyPath\<close>, whichever of the two kinds of object \<open>store\<close> is.\<close>

fun source_keyPath :: "idb_source \<Rightarrow> key_path" where
  "source_keyPath (IDBObjectStore n objectStore) = keyPath objectStore"
| "source_keyPath (IDBIndex n h kp) = kp"

text \<open>
  The \<open>in\<close> operator throws a TypeError when its right operand is not an object;
  \<open>obj[key]\<close> is undefined for a property the object does not have.
\<close>

definition js_in :: "string \<Rightarrow> js_value \<Rightarrow> js_error + bool" where
  "js_in k v =
     (case v of
        JObj props \<Rightarrow> Inr (k \<in> set (map fst props))
      | _ \<Rightarrow> Inl (TypeError ''Cannot use in operator on a value that is not an object''))"

definition js_get :: "js_value \<Rightarrow> string \<Rightarrow> js_value" where
  "js_get v k =
     (case v of
        JObj props \<Rightarrow> (case map_of props k of Some x \<Rightarrow> x | None \<Rightarrow> JUndefined)
      | _ \<Rightarrow> JUndefined)"

subsection \<open>src/DbAction.ts\<close>

definition executeRead_src :: "db_action \<Rightarrow> execution" where
  "executeRead_src this =
     (case resolveStoreOrIndex this Readonly True of
        (cs, Inl e) \<Rightarrow> throws this cs e
      | (cs, Inr source) \<Rightarrow>
          issue this cs source GetAll
            \<lparr>request_onsuccess = SuccessResolveResult,
             request_onerror = ''Read operation failed with unknown error'',
             transaction_oncomplete = CompleteUnset,
             transaction_onerror = False,
             transaction_onabort = False\<rparr>)"

definition executeWrite_src :: "db_action \<Rightarrow> execution" where
  "executeWrite_src this =
     (case resolveStoreOrIndex this Readwrite False of
        (cs, Inl e) \<Rightarrow> throws this cs e
      | (cs, Inr store) \<Rightarrow>
          (if updateDoc this = JUndefined
           then throws this cs (Error ''Document data is required for write operations'')
           else
             issue this cs store (Add (updateDoc this))
               \<lparr>request_onsuccess = SuccessResolveVoid,
                request_onerror = ''Write operation failed with unknown error'',
                transaction_oncomplete = CompleteUnset,
                transaction_onerror = False,
                transaction_onabort = False\<rparr>))"

definition missing_key_message :: "string \<Rightarrow> string" where
  "missing_key_message k =
     ''Update document must contain the primary key '' @ [CHR 0x27] @ k @ [CHR 0x27] @ ''. '' @
     ''The key is required to identify the record to update.''"

definition executeUpdate_src :: "db_action \<Rightarrow> execution" where
  "executeUpdate_src this =
     (if updateDoc this = JUndefined
      then throws this [] (Error ''Document data is required for update operations'')
      else
        (case resolveStoreOrIndex this Readwrite False of
           (cs, Inl e) \<Rightarrow> throws this cs e
         | (cs, Inr store) \<Rightarrow>
             (case source_keyPath store of
                KeyPathNull \<Rightarrow>
                  throws this cs
                    (Error ''Update operations require a keyPath. Object store must have an inline key.'')
              | KeyPathArray ps \<Rightarrow>
                  throws this cs
                    (Error ''Update operations require a string keyPath. Array-based keyPaths are not supported.'')
              | KeyPathString k \<Rightarrow>
                  (case js_in k (updateDoc this) of
                     Inl e \<Rightarrow> throws this cs e
                   | Inr present \<Rightarrow>
                       (if present \<and> js_get (updateDoc this) k \<noteq> JUndefined
                        then
                          issue this cs store (Put (updateDoc this))
                            \<lparr>request_onsuccess = SuccessResolveVoid,
                             request_onerror = ''Update operation failed with unknown error'',
                             transaction_oncomplete = CompleteUnset,
                             transaction_onerror = False,
                             transaction_onabort = False\<rparr>
                        else throws this cs (Error (missing_key_message k)))))))"

definition executeDelete_src :: "db_action \<Rightarrow> execution" where
  "executeDelete_src this =
     (if deleteDoc this = JUndefined
      then throws this [] (Error ''Delete key or key range is required for delete operations'')
      else
        (case resolveStoreOrIndex this Readwrite False of
           (cs, Inl e) \<Rightarrow> throws this cs e
         | (cs, Inr store) \<Rightarrow>
             issue this cs store (Delete (deleteDoc this))
               \<lparr>request_onsuccess = SuccessResolveVoid,
                request_onerror = ''Delete operation failed with unknown error'',
                transaction_oncomplete = CompleteUnset,
                transaction_onerror = False,
                transaction_onabort = False\<rparr>))"

definition executeClear_src :: "db_action \<Rightarrow> execution" where
  "executeClear_src this =
     (case resolveStoreOrIndex this Readwrite False of
        (cs, Inl e) \<Rightarrow> throws this cs e
      | (cs, Inr store) \<Rightarrow>
          issue this cs store Clear
            \<lparr>request_onsuccess = SuccessResolveVoid,
             request_onerror = ''Clear operation failed with unknown error'',
             transaction_oncomplete = CompleteUnset,
             transaction_onerror = False,
             transaction_onabort = False\<rparr>)"

definition unrecognized_message :: "string \<Rightarrow> string" where
  "unrecognized_message act =
     ''Unrecognized database action: '' @ act @ ''. '' @
     ''Must be one of: '' @ join_strings '', '' (Object_values DB_ACTIONS)"

definition execute_src :: "db_action \<Rightarrow> execution" where
  "execute_src this =
     (if action this = DB_ACTIONS_READ then executeRead_src this
      else if action this = DB_ACTIONS_WRITE then executeWrite_src this
      else if action this = DB_ACTIONS_UPDATE then executeUpdate_src this
      else if action this = DB_ACTIONS_DELETE then executeDelete_src this
      else if action this = DB_ACTIONS_CLEAR then executeClear_src this
      else throws this [] (Error (unrecognized_message (action this))))"

subsection \<open>dist/DbAction.js\<close>

text \<open>
  The compiled file differs from the TypeScript source: its \<open>resolveStoreOrIndex\<close>
  also returns the transaction, and every operation registers handlers on it.
\<close>

type_synonym idb_transaction = "string list \<times> tx_mode \<times> string"

definition resolveStoreOrIndex_dist :: "db_action \<Rightarrow> tx_mode \<Rightarrow> bool \<Rightarrow> native_call list \<times> (js_error + idb_source \<times> idb_transaction)" where
  "resolveStoreOrIndex_dist this transactionMode allowIndex =
     (case resolveStoreOrIndex this transactionMode allowIndex of
        (cs, Inl e) \<Rightarrow> (cs, Inl e)
      | (cs, Inr source) \<Rightarrow>
          (cs, Inr (source, ([storeName this], transactionMode, durability this))))"

fun instanceof_IDBObjectStore :: "idb_source \<Rightarrow> bool" where
  "instanceof_IDBObjectStore (IDBObjectStore n objectStore) = True"
| "instanceof_IDBObjectStore (IDBIndex n h kp) = False"

fun instanceof_IDBIndex :: "idb_source \<Rightarrow> bool" where
  "instanceof_IDBIndex (IDBObjectStore n objectStore) = False"
| "instanceof_IDBIndex (IDBIndex n h kp) = True"

definition executeRead_dist :: "db_action \<Rightarrow> execution" where
  "executeRead_dist this =
     (case resolveStoreOrIndex_dist this Readonly True of
        (cs, Inl e) \<Rightarrow> throws this cs e
      | (cs, Inr (store, transaction)) \<Rightarrow>
          issue this cs store GetAll
            \<lparr>request_onsuccess = SuccessStoreResult,
             request_onerror = ''Read operation failed with unknown error'',
             transaction_oncomplete = CompleteResolveStored,
             transaction_onerror = True,
             transaction_onabort = True\<rparr>)"

definition executeWrite_dist :: "db_action \<Rightarrow> execution" where
  "executeWrite_dist this =
     (if updateDoc this = JUndefined
      then throws this [] (Error ''Document data is required for write operations'')
      else
        (case resolveStoreOrIndex_dist this Readwrite False of
           (cs, Inl e) \<Rightarrow> throws this cs e
         | (cs, Inr (store, transaction)) \<Rightarrow>
             (if instanceof_IDBObjectStore store
              then
                issue this cs store (Add (updateDoc this))
                  \<lparr>request_onsuccess = SuccessUnset,
                   request_onerror = ''Write operation failed'',
                   transaction_oncomplete = CompleteResolveVoid,
                   transaction_onerror = True,
                   transaction_onabort = True\<rparr>
              else
                throws this cs
                  (Error ''Write operations require an IDBObjectStore, not an IDBIndex''))))"

definition executeUpdate_dist :: "db_action \<Rightarrow> execution" where
  "executeUpdate_dist this =
     (if updateDoc this = JUndefined
      then throws this [] (Error ''Document data is required for update operations'')
      else
        (case resolveStoreOrIndex_dist this Readwrite False of
           (cs, Inl e) \<Rightarrow> throws this cs e
         | (cs, Inr (store, transaction)) \<Rightarrow>
             (if instanceof_IDBIndex store
              then
                throws this cs
                  (Error ''Update operations require an IDBObjectStore, not an IDBIndex'')
              else
                (case source_keyPath store of
                   KeyPathNull \<Rightarrow>
                     throws this cs
                       (Error ''Update operations require a keyPath. Object store must have an inline key.'')
                 | KeyPathArray ps \<Rightarrow>
                     throws this cs
                       (Error ''Update operations require a string keyPath. Array-based keyPaths are not supported.'')
                 | KeyPathString k \<Rightarrow>
                     (case js_in k (updateDoc this) of
                        Inl e \<Rightarrow> throws this cs e
                      | Inr present \<Rightarrow>
                          (if present \<and> js_get (updateDoc this) k \<noteq> JUndefined
                           then
                             issue this cs store (Put (updateDoc this))
                               \<lparr>request_onsuccess = SuccessUnset,
                                request_onerror = ''Update operation failed with unknown error'',
                                transaction_oncomplete = CompleteResolveVoid,
                                transaction_onerror = True,
                                transaction_onabort = True\<rparr>
                           else throws this cs (Error (missing_key_message k))))))))"

definition executeDelete_dist :: "db_action \<Rightarrow> execution" where
  "executeDelete_dist this =
     (if deleteDoc this = JUndefined
      then throws this [] (Error ''Delete key or key range is required for delete operations'')
      else
        (case resolveStoreOrIndex_dist this Readwrite False of
           (cs, Inl e) \<Rightarrow> throws this cs e
         | (cs, Inr (store, transaction)) \<Rightarrow>
             (if instanceof_IDBObjectStore store
              then
                issue this cs store (Delete (deleteDoc this))
                  \<lparr>request_onsuccess = SuccessUnset,
                   request_onerror = ''Delete operation failed'',
                   transaction_oncomplete = CompleteResolveVoid,
                   transaction_onerror = True,
                   transaction_onabort = True\<rparr>
              else
                throws this cs
                  (Error ''Delete operations require an IDBObjectStore, not an IDBIndex''))))"

definition executeClear_dist :: "db_action \<Rightarrow> execution" where
  "executeClear_dist this =
     (case resolveStoreOrIndex_dist this Readwrite False of
        (cs, Inl e) \<Rightarrow> throws this cs e
      | (cs, Inr (store, transaction)) \<Rightarrow>
          (if instanceof_IDBObjectStore store
           then
             issue this cs store Clear
               \<lparr>request_onsuccess = SuccessUnset,
                request_onerror = ''Clear operation failed with unknown error'',
                transaction_oncomplete = CompleteResolveVoid,
                transaction_onerror = True,
                transaction_onabort = True\<rparr>
           else
             throws this cs
               (Error ''Clear operations require an IDBObjectStore, not an IDBIndex'')))"

definition execute_dist :: "db_action \<Rightarrow> execution" where
  "execute_dist this =
     (if action this = DB_ACTIONS_READ then executeRead_dist this
      else if action this = DB_ACTIONS_WRITE then executeWrite_dist this
      else if action this = DB_ACTIONS_UPDATE then executeUpdate_dist this
      else if action this = DB_ACTIONS_DELETE then executeDelete_dist this
      else if action this = DB_ACTIONS_CLEAR then executeClear_dist this
      else throws this [] (Error (unrecognized_message (action this))))"

section \<open>Executing an action: the promise\<close>

text \<open>
  The state of the promise \<open>execute\<close> returned, once the engine has delivered the
  events \<open>evs\<close> in this order. A synchronous throw inside the async function is a
  promise rejected from the start.
\<close>

definition settle :: "execution \<Rightarrow> idb_event list \<Rightarrow> promise" where
  "settle ex evs =
     (case outcome ex of
        Inl e \<Rightarrow> Rejected (Some e)
      | Inr cb \<Rightarrow> fst (deliver cb evs (Pending, ResultUndefined)))"

section \<open>The storage engine\<close>

text \<open>
  Modelled from the spec: the storage engine behind the native calls is the browser's and
  not part of the repository. Section 6 of the specification lists what it offers:
  collections with an optional single-field inline key path, the operations fetch-all,
  insert-only-if-absent, upsert, delete-by-key and clear-all, a success or error
  callback per request, and a completion, error or abort callback per transaction. The
  transaction is the atomic unit: its changes stay when it completes and are undone
  when it aborts, whatever the request signalled. Where the specification is silent
  the IndexedDB standard is followed: a record is stored under the valid key it carries
  at the store's key path, and an index, which the specification calls derived from the
  collection's records, lists the records that carry a valid key at its own key path.
  Key ranges and the order of the rows are not modelled.
\<close>

text \<open>The key as \<open>request.result\<close> of an \<open>add\<close> or a \<open>put\<close>.\<close>

fun key_result :: "js_value list \<Rightarrow> request_result" where
  "key_result [k] = ResultKey k"
| "key_result ks = ResultKeys ks"

fun native_request :: "idb_object_store \<Rightarrow> idb_request \<Rightarrow> js_error + request_result \<times> js_value list" where
  "native_request st GetAll = Inr (ResultRows (records st), records st)"
| "native_request st (Add doc) =
     (case extract_key (keyPath st) doc of
        None \<Rightarrow> Inl (DOMException ''DataError'')
      | Some k \<Rightarrow>
          (if Some k \<in> set (map (extract_key (keyPath st)) (records st))
           then Inl (DOMException ''ConstraintError'')
           else Inr (key_result k, records st @ [doc])))"
| "native_request st (Put doc) =
     (case extract_key (keyPath st) doc of
        None \<Rightarrow> Inl (DOMException ''DataError'')
      | Some k \<Rightarrow>
          Inr (key_result k,
               filter (\<lambda>d. extract_key (keyPath st) d \<noteq> Some k) (records st) @ [doc]))"
| "native_request st (Delete k) =
     (if valid_key k
      then Inr (ResultUndefined, filter (\<lambda>d. extract_key (keyPath st) d \<noteq> Some [k]) (records st))
      else Inl (DOMException ''DataError''))"
| "native_request st Clear = Inr (ResultUndefined, [])"

text \<open>
  A request through a source. An index answers \<open>getAll\<close> only, with the documents
  that carry a valid key at the key path of the index.
\<close>

fun source_request :: "idb_object_store \<Rightarrow> idb_source \<Rightarrow> idb_request \<Rightarrow> js_error + request_result \<times> js_value list" where
  "source_request st (IDBObjectStore n objectStore) req = native_request st req"
| "source_request st (IDBIndex n h kp) GetAll =
     Inr (ResultRows (filter (\<lambda>d. extract_key kp d \<noteq> None) (records st)), records st)"
| "source_request st (IDBIndex n h kp) req = Inl (TypeError ''an index has no such method'')"

fun source_store :: "idb_source \<Rightarrow> string" where
  "source_store (IDBObjectStore n objectStore) = n"
| "source_store (IDBIndex n h kp) = n"

definition put_records :: "string \<Rightarrow> js_value list \<Rightarrow> idb_database \<Rightarrow> idb_database" where
  "put_records n recs db =
     db\<lparr>objectStores :=
          map (\<lambda>(m, st). if m = n then (m, st\<lparr>records := recs\<rparr>) else (m, st)) (objectStores db)\<rparr>"

text \<open>
  Whether the engine can commit is its own matter (disk, quota): \<open>CommitFails\<close> is a
  run in which the request succeeds and the transaction then aborts.
\<close>

datatype engine_fault = NoFault | CommitFails "js_error option"

text \<open>
  One transaction: the events delivered for the calls of one execution, and the database
  afterwards. An execution that issued no request has no handlers to reach.
\<close>

definition engine_run :: "engine_fault \<Rightarrow> idb_database \<Rightarrow> native_call list \<Rightarrow> idb_event list \<times> idb_database" where
  "engine_run fault db cs =
     (case requests cs of
        [] \<Rightarrow> ([], db)
      | (source, req) # rest \<Rightarrow>
          (case map_of (objectStores db) (source_store source) of
             None \<Rightarrow> ([], db)
           | Some st \<Rightarrow>
               (case source_request st source req of
                  Inl e \<Rightarrow> ([RequestError (Some e), TransactionAbort (Some e)], db)
                | Inr (r, recs) \<Rightarrow>
                    (case fault of
                       NoFault \<Rightarrow>
                         ([RequestSuccess r, TransactionComplete],
                          put_records (source_store source) recs db)
                     | CommitFails e \<Rightarrow> ([RequestSuccess r, TransactionAbort e], db)))))"

text \<open>
  One \<open>execute\<close> against the engine: the promise once the engine's events have
  been delivered, the events, and the database afterwards.
\<close>

definition run_execute :: "(db_action \<Rightarrow> execution) \<Rightarrow> engine_fault \<Rightarrow> db_action \<Rightarrow> promise \<times> idb_event list \<times> idb_database" where
  "run_execute exec fault this =
     (case engine_run fault (databaseInstance this) (calls (exec this)) of
        (evs, db') \<Rightarrow> (settle (exec this) evs, evs, db'))"

text \<open>The calls with the durability option of every transaction replaced by \<open>d\<close>.\<close>

fun with_durability :: "string \<Rightarrow> native_call \<Rightarrow> native_call" where
  "with_durability d (Transaction names transactionMode d') = Transaction names transactionMode d"
| "with_durability d c = c"

section \<open>Predicates of the specification\<close>




text \<open>
  Two executions that differ in nothing but the durability option \<open>d\<close> of the
  transaction the first one opened.
\<close>

definition same_but_durability :: "string \<Rightarrow> execution \<Rightarrow> execution \<Rightarrow> bool" where
  "same_but_durability d ex' ex =
     (calls ex' = map (with_durability d) (calls ex) \<and> outcome ex' = outcome ex)"

section \<open>Sample values\<close>

text \<open>
  The database of the repository's tests: one store \<open>users\<close> keyed by \<open>id\<close>
  (here with one index, on \<open>name\<close>), and \<open>new DbAction(act, db, "users")\<close>.
\<close>

definition users_store :: idb_object_store where
  "users_store =
     \<lparr>keyPath = KeyPathString ''id'', indexes = [(''by_name'', KeyPathString ''name'')],
      records = []\<rparr>"

definition test_db :: idb_database where
  "test_db = \<lparr>objectStores = [(''users'', users_store)], closed = False\<rparr>"

text \<open>The same connection after \<open>close()\<close>.\<close>

definition closed_db :: idb_database where
  "closed_db = \<lparr>objectStores = [(''users'', users_store)], closed = True\<rparr>"

definition alice :: js_value where
  "alice = JObj [(''id'', JStr ''1''), (''name'', JStr ''Alice'')]"



definition new_action :: "string \<Rightarrow> db_action" where
  "new_action act =
     \<lparr>action = act, databaseInstance = test_db, storeName = ''users'', hintIndex = None,
      durability = ''relaxed'', updateDoc = JUndefined, deleteDoc = JUndefined\<rparr>"

section \<open>Construction and dispatch\<close>

lemmas action_names =
  DB_ACTIONS_READ_def DB_ACTIONS_WRITE_def DB_ACTIONS_UPDATE_def DB_ACTIONS_DELETE_def
  DB_ACTIONS_CLEAR_def

lemma join_values:
  "join_strings '', '' (Object_values DB_ACTIONS) = ''READ, WRITE, UPDATE, DELETE, CLEAR''"
  by (simp add: Object_values_def DB_ACTIONS_def action_names)

lemma closed_resolve:
  "closed (databaseInstance this) \<Longrightarrow>
   resolveStoreOrIndex this transactionMode allowIndex =
     ([Transaction [storeName this] transactionMode (durability this)],
      Inl (DOMException ''InvalidStateError''))"
  by (simp add: resolveStoreOrIndex_def)

text \<open>
  C7 as stated fails for a handle that is not live: the constructor accepts the closed
  connection, and the READ built on it fails only when \<open>execute\<close> opens the
  transaction.
\<close>

theorem constructor_accepts_closed_database:
  "closed closed_db
   \<and> DbAction_constructor ''READ'' (IDBDatabaseInstance closed_db) (JStr ''users'') =
       Inr ((new_action ''READ'')\<lparr>databaseInstance := closed_db\<rparr>)
   \<and> execute_src ((new_action ''READ'')\<lparr>databaseInstance := closed_db\<rparr>) =
       throws ((new_action ''READ'')\<lparr>databaseInstance := closed_db\<rparr>)
         [Transaction [''users''] Readonly ''relaxed''] (DOMException ''InvalidStateError'')
   \<and> execute_dist ((new_action ''READ'')\<lparr>databaseInstance := closed_db\<rparr>) =
       execute_src ((new_action ''READ'')\<lparr>databaseInstance := closed_db\<rparr>)"
  by (simp add: DbAction_constructor_def new_action_def closed_db_def execute_src_def
      execute_dist_def executeRead_src_def executeRead_dist_def resolveStoreOrIndex_dist_def
      resolveStoreOrIndex_def action_names)

text \<open>
  C7, as amended. The test the code makes on the handle is \<open>instanceof IDBDatabase\<close>.
  The constructor succeeds exactly for an \<open>IDBDatabase\<close> instance, open or closed,
  and a non-empty string store name, and then yields the instance with the three given
  fields and the defaults. In every other case it throws a \<open>TypeError\<close> itself. A
  closed connection is not detected at construction: a READ or CLEAR built on it fails
  in \<open>execute\<close>, with the InvalidStateError of the transaction it cannot open.
\<close>

theorem constructor_validates:
  "DbAction_constructor act (IDBDatabaseInstance db) (JStr (c # cs)) =
     Inr \<lparr>action = act, databaseInstance = db, storeName = c # cs, hintIndex = None,
          durability = ''relaxed'', updateDoc = JUndefined, deleteDoc = JUndefined\<rparr>
   \<and> ((\<exists>this. DbAction_constructor act h n = Inr this) =
        (\<exists>db s. h = IDBDatabaseInstance db \<and> n = JStr s \<and> s \<noteq> []))
   \<and> ((\<exists>msg. DbAction_constructor act h n = Inl (TypeError msg)) =
        (\<not> (\<exists>db s. h = IDBDatabaseInstance db \<and> n = JStr s \<and> s \<noteq> [])))
   \<and> (closed db \<and> (act = DB_ACTIONS_READ \<or> act = DB_ACTIONS_CLEAR) \<longrightarrow>
        (\<exists>this. DbAction_constructor act (IDBDatabaseInstance db) (JStr (c # cs)) = Inr this
           \<and> outcome (execute_src this) = Inl (DOMException ''InvalidStateError'')
           \<and> outcome (execute_dist this) = Inl (DOMException ''InvalidStateError'')
           \<and> attempts (calls (execute_src this)) = []
           \<and> attempts (calls (execute_dist this)) = []))"
proof -
  have a: "DbAction_constructor act (IDBDatabaseInstance db) (JStr (c # cs)) =
     Inr \<lparr>action = act, databaseInstance = db, storeName = c # cs, hintIndex = None,
          durability = ''relaxed'', updateDoc = JUndefined, deleteDoc = JUndefined\<rparr>"
    by (simp add: DbAction_constructor_def)
  have b: "(\<exists>this. DbAction_constructor act h n = Inr this) =
        (\<exists>db s. h = IDBDatabaseInstance db \<and> n = JStr s \<and> s \<noteq> [])"
    by (auto simp: DbAction_constructor_def split: js_ref.splits js_value.splits)
  have c: "(\<exists>msg. DbAction_constructor act h n = Inl (TypeError msg)) =
        (\<not> (\<exists>db s. h = IDBDatabaseInstance db \<and> n = JStr s \<and> s \<noteq> []))"
    by (auto simp: DbAction_constructor_def split: js_ref.splits js_value.splits)
  have d: "outcome (execute_src this) = Inl (DOMException ''InvalidStateError'')
      \<and> outcome (execute_dist this) = Inl (DOMException ''InvalidStateError'')
      \<and> attempts (calls (execute_src this)) = []
      \<and> attempts (calls (execute_dist this)) = []"
    if "closed (databaseInstance this)"
      and "action this = DB_ACTIONS_READ \<or> action this = DB_ACTIONS_CLEAR" for this
    using that
    by (auto simp: execute_src_def execute_dist_def executeRead_src_def executeRead_dist_def
        executeClear_src_def executeClear_dist_def resolveStoreOrIndex_dist_def closed_resolve
        throws_def action_names)
  show ?thesis
    using a b c d by simp
qed

theorem constructor_validates_witness:
  "closed closed_db \<and> ''READ'' = DB_ACTIONS_READ
   \<and> (\<exists>this. DbAction_constructor ''READ'' (IDBDatabaseInstance closed_db) (JStr ''users'') = Inr this
        \<and> outcome (execute_src this) = Inl (DOMException ''InvalidStateError'')
        \<and> outcome (execute_dist this) = Inl (DOMException ''InvalidStateError''))"
proof -
  have c: "closed closed_db"
    by (simp add: closed_db_def)
  have r: "''READ'' = DB_ACTIONS_READ"
    by (simp add: action_names)
  from c r constructor_validates [of "''READ''" closed_db "CHR ''u''" "''sers''"] show ?thesis
    by blast
qed

text \<open>
  C8. For an action that is none of the five values of \<open>DB_ACTIONS\<close>, both files'
  \<open>execute\<close> throw at once: no call reaches the engine, so no transaction is opened,
  the promise is rejected whatever the engine does afterwards, and the message holds the
  offending value and the five valid ones.
\<close>

theorem unrecognized_action_rejected:
  assumes "action this \<notin> set (Object_values DB_ACTIONS)"
  shows "execute_src this =
           throws this []
             (Error (''Unrecognized database action: '' @ action this @
                     ''. Must be one of: READ, WRITE, UPDATE, DELETE, CLEAR''))
         \<and> execute_dist this = execute_src this
         \<and> calls (execute_src this) = []
         \<and> settle (execute_src this) evs =
             Rejected (Some (Error (''Unrecognized database action: '' @ action this @
                     ''. Must be one of: READ, WRITE, UPDATE, DELETE, CLEAR'')))"
proof -
  have ne: "action this \<noteq> DB_ACTIONS_READ" "action this \<noteq> DB_ACTIONS_WRITE"
    "action this \<noteq> DB_ACTIONS_UPDATE" "action this \<noteq> DB_ACTIONS_DELETE"
    "action this \<noteq> DB_ACTIONS_CLEAR"
    using assms by (auto simp: Object_values_def DB_ACTIONS_def)
  have src: "execute_src this =
      throws this []
        (Error (''Unrecognized database action: '' @ action this @
                ''. Must be one of: READ, WRITE, UPDATE, DELETE, CLEAR''))"
    using ne by (simp add: execute_src_def unrecognized_message_def join_values)
  have dist: "execute_dist this = execute_src this"
    using ne by (simp add: execute_src_def execute_dist_def)
  show ?thesis
    using dist by (simp add: src throws_def settle_def)
qed

theorem unrecognized_action_rejected_witness:
  "action (new_action ''PURGE'') \<notin> set (Object_values DB_ACTIONS)
   \<and> execute_dist (new_action ''PURGE'') = execute_src (new_action ''PURGE'')
   \<and> calls (execute_src (new_action ''PURGE'')) = []
   \<and> settle (execute_src (new_action ''PURGE'')) [TransactionComplete] =
       Rejected (Some (Error
         ''Unrecognized database action: PURGE. Must be one of: READ, WRITE, UPDATE, DELETE, CLEAR''))"
proof -
  have h: "action (new_action ''PURGE'') \<notin> set (Object_values DB_ACTIONS)"
    by (simp add: new_action_def Object_values_def DB_ACTIONS_def action_names)
  show ?thesis
    using h unrecognized_action_rejected [OF h, of "[TransactionComplete]"]
    by (simp add: new_action_def throws_def settle_def)
qed

section \<open>What an execution leaves behind\<close>

lemma this_after_throws [simp]: "this_after (throws this cs e) = this"
  by (simp add: throws_def)

lemma this_after_returns [simp]: "this_after (returns this cs cb) = this"
  by (simp add: returns_def)

lemma this_after_issue [simp]: "this_after (issue this cs store req cb) = this"
  by (simp add: issue_def split: option.split)

lemma calls_throws [simp]: "calls (throws this cs e) = cs"
  by (simp add: throws_def)

lemma calls_returns [simp]: "calls (returns this cs cb) = cs"
  by (simp add: returns_def)

lemma outcome_throws [simp]: "outcome (throws this cs e) = Inl e"
  by (simp add: throws_def)

lemma outcome_returns [simp]: "outcome (returns this cs cb) = Inr cb"
  by (simp add: returns_def)

lemma requests_append [simp]: "requests (cs @ ds) = requests cs @ requests ds"
  by (induction cs rule: requests.induct) simp_all

lemma attempts_append [simp]: "attempts (cs @ ds) = attempts cs @ attempts ds"
  by (induction cs rule: attempts.induct) simp_all



lemma attempts_issue [simp]:
  "attempts (calls (issue this cs store req cb)) = attempts cs @ [(store, req)]"
  by (simp add: issue_def split: option.split)



section \<open>The store or index an operation resolves\<close>

lemma resolve_missing:
  "\<not> closed (databaseInstance this) \<Longrightarrow>
   map_of (objectStores (databaseInstance this)) (storeName this) = None \<Longrightarrow>
   resolveStoreOrIndex this m b =
     ([Transaction [storeName this] m (durability this)], Inl (DOMException ''NotFoundError''))"
  by (simp add: resolveStoreOrIndex_def Let_def)











section \<open>The configuration of an instance\<close>

lemma this_after_executeRead_src: "this_after (executeRead_src this) = this"
  by (simp add: executeRead_src_def split: prod.split sum.split)

lemma this_after_executeWrite_src: "this_after (executeWrite_src this) = this"
  by (simp add: executeWrite_src_def split: prod.split sum.split)

lemma this_after_executeUpdate_src: "this_after (executeUpdate_src this) = this"
  by (simp add: executeUpdate_src_def split: prod.split sum.split key_path.split)

lemma this_after_executeDelete_src: "this_after (executeDelete_src this) = this"
  by (simp add: executeDelete_src_def split: prod.split sum.split)

lemma this_after_executeClear_src: "this_after (executeClear_src this) = this"
  by (simp add: executeClear_src_def split: prod.split sum.split)

lemma this_after_src: "this_after (execute_src this) = this"
  by (simp add: execute_src_def this_after_executeRead_src this_after_executeWrite_src
      this_after_executeUpdate_src this_after_executeDelete_src this_after_executeClear_src)

lemma this_after_executeRead_dist: "this_after (executeRead_dist this) = this"
  by (simp add: executeRead_dist_def split: prod.split sum.split)

lemma this_after_executeWrite_dist: "this_after (executeWrite_dist this) = this"
  by (simp add: executeWrite_dist_def split: prod.split sum.split)

lemma this_after_executeUpdate_dist: "this_after (executeUpdate_dist this) = this"
  by (simp add: executeUpdate_dist_def split: prod.split sum.split key_path.split)

lemma this_after_executeDelete_dist: "this_after (executeDelete_dist this) = this"
  by (simp add: executeDelete_dist_def split: prod.split sum.split)

lemma this_after_executeClear_dist: "this_after (executeClear_dist this) = this"
  by (simp add: executeClear_dist_def split: prod.split sum.split)

lemma this_after_dist: "this_after (execute_dist this) = this"
  by (simp add: execute_dist_def this_after_executeRead_dist this_after_executeWrite_dist
      this_after_executeUpdate_dist this_after_executeDelete_dist this_after_executeClear_dist)

text \<open>
  C10. A setter that returns hands back the instance it was called on with its own field
  set and every other field as it was: the index hint for \<open>configureIndexHint\<close>, the
  durability for \<open>configureDurability\<close>, the payload for \<open>setDocumentData\<close>
  and the delete key for \<open>setDeleteKey\<close>. So the action, the database handle and
  the store name given to the constructor stay as they are, and \<open>execute\<close> of either
  file leaves the whole instance unchanged.
\<close>

theorem configuration_frame:
  "(configureIndexHint v this = Inr t \<longrightarrow> (\<exists>s. t = this\<lparr>hintIndex := Some s\<rparr>))
   \<and> (configureDurability w this = Inr u \<longrightarrow> (\<exists>d. u = this\<lparr>durability := d\<rparr>))
   \<and> setDocumentData doc this = Inr (this\<lparr>updateDoc := doc\<rparr>)
   \<and> setDeleteKey k this = Inr (this\<lparr>deleteDoc := k\<rparr>)
   \<and> this_after (execute_src this) = this
   \<and> this_after (execute_dist this) = this"
  by (auto simp: configureIndexHint_def configureDurability_def setDocumentData_def
      setDeleteKey_def this_after_src this_after_dist split: js_value.splits if_splits)

theorem configuration_frame_witness:
  "configureIndexHint (JStr ''by_name'') (new_action ''READ'') =
     Inr ((new_action ''READ'')\<lparr>hintIndex := Some ''by_name''\<rparr>)
   \<and> configureDurability (JStr ''strict'') (new_action ''WRITE'') =
     Inr ((new_action ''WRITE'')\<lparr>durability := ''strict''\<rparr>)
   \<and> this_after (execute_dist (new_action ''READ'')) = new_action ''READ''"
  using configuration_frame [where v = "JStr ''by_name''" and this = "new_action ''READ''"]
    configuration_frame [where w = "JStr ''strict''" and this = "new_action ''WRITE''"]
  by (simp add: configureIndexHint_def configureDurability_def)

section \<open>Failing before a request is issued\<close>


































section \<open>The source of an operation\<close>


































section \<open>Durability\<close>

lemma requests_with_durability [simp]:
  "requests (map (with_durability d) cs) = requests cs"
  by (induction cs rule: requests.induct) simp_all

lemma resolve_durability:
  "resolveStoreOrIndex (this\<lparr>durability := d\<rparr>) m b =
     (map (with_durability d) (fst (resolveStoreOrIndex this m b)),
      snd (resolveStoreOrIndex this m b))"
  by (simp add: resolveStoreOrIndex_def Let_def split: option.split)

lemma sbd_throws [simp]:
  "same_but_durability d (throws t' cs' e') (throws t cs e) =
     (cs' = map (with_durability d) cs \<and> e' = e)"
  by (simp add: same_but_durability_def)

lemma sbd_returns [simp]:
  "same_but_durability d (returns t' cs' cb') (returns t cs cb) =
     (cs' = map (with_durability d) cs \<and> cb' = cb)"
  by (simp add: same_but_durability_def)

lemma sbd_issue [simp]:
  "same_but_durability d (issue t' (map (with_durability d) cs) store req cb) (issue t cs store req cb)"
  by (simp add: issue_def split: option.split)

lemma durability_executeRead_src:
  "same_but_durability d (executeRead_src (this\<lparr>durability := d\<rparr>)) (executeRead_src this)"
  by (cases "resolveStoreOrIndex this Readonly True")
     (auto simp: executeRead_src_def resolve_durability split: sum.splits)

lemma durability_executeWrite_src:
  "same_but_durability d (executeWrite_src (this\<lparr>durability := d\<rparr>)) (executeWrite_src this)"
  by (cases "resolveStoreOrIndex this Readwrite False")
     (auto simp: executeWrite_src_def resolve_durability split: sum.splits)

lemma durability_executeUpdate_src:
  "same_but_durability d (executeUpdate_src (this\<lparr>durability := d\<rparr>)) (executeUpdate_src this)"
  by (cases "resolveStoreOrIndex this Readwrite False")
     (auto simp: executeUpdate_src_def resolve_durability split: sum.splits key_path.splits)

lemma durability_executeDelete_src:
  "same_but_durability d (executeDelete_src (this\<lparr>durability := d\<rparr>)) (executeDelete_src this)"
  by (cases "resolveStoreOrIndex this Readwrite False")
     (auto simp: executeDelete_src_def resolve_durability split: sum.splits)

lemma durability_executeClear_src:
  "same_but_durability d (executeClear_src (this\<lparr>durability := d\<rparr>)) (executeClear_src this)"
  by (cases "resolveStoreOrIndex this Readwrite False")
     (auto simp: executeClear_src_def resolve_durability split: sum.splits)

lemma durability_src:
  "same_but_durability d (execute_src (this\<lparr>durability := d\<rparr>)) (execute_src this)"
  by (simp add: execute_src_def durability_executeRead_src durability_executeWrite_src
      durability_executeUpdate_src durability_executeDelete_src durability_executeClear_src)

lemma durability_executeRead_dist:
  "same_but_durability d (executeRead_dist (this\<lparr>durability := d\<rparr>)) (executeRead_dist this)"
  by (cases "resolveStoreOrIndex this Readonly True")
     (auto simp: executeRead_dist_def resolveStoreOrIndex_dist_def resolve_durability
       split: sum.splits)

lemma durability_executeWrite_dist:
  "same_but_durability d (executeWrite_dist (this\<lparr>durability := d\<rparr>)) (executeWrite_dist this)"
  by (cases "resolveStoreOrIndex this Readwrite False")
     (auto simp: executeWrite_dist_def resolveStoreOrIndex_dist_def resolve_durability
       split: sum.splits)

lemma durability_executeUpdate_dist:
  "same_but_durability d (executeUpdate_dist (this\<lparr>durability := d\<rparr>)) (executeUpdate_dist this)"
  by (cases "resolveStoreOrIndex this Readwrite False")
     (auto simp: executeUpdate_dist_def resolveStoreOrIndex_dist_def resolve_durability
       split: sum.splits key_path.splits)

lemma durability_executeDelete_dist:
  "same_but_durability d (executeDelete_dist (this\<lparr>durability := d\<rparr>)) (executeDelete_dist this)"
  by (cases "resolveStoreOrIndex this Readwrite False")
     (auto simp: executeDelete_dist_def resolveStoreOrIndex_dist_def resolve_durability
       split: sum.splits)

lemma durability_executeClear_dist:
  "same_but_durability d (executeClear_dist (this\<lparr>durability := d\<rparr>)) (executeClear_dist this)"
  by (cases "resolveStoreOrIndex this Readwrite False")
     (auto simp: executeClear_dist_def resolveStoreOrIndex_dist_def resolve_durability
       split: sum.splits)

lemma durability_dist:
  "same_but_durability d (execute_dist (this\<lparr>durability := d\<rparr>)) (execute_dist this)"
  by (simp add: execute_dist_def durability_executeRead_dist durability_executeWrite_dist
      durability_executeUpdate_dist durability_executeDelete_dist durability_executeClear_dist)

lemma engine_run_requests:
  "requests cs = requests ds \<Longrightarrow> engine_run f db cs = engine_run f db ds"
  by (simp add: engine_run_def)

lemma settle_outcome:
  "outcome ex' = outcome ex \<Longrightarrow> settle ex' evs = settle ex evs"
  by (simp add: settle_def)

text \<open>
  C9. A constructed instance has durability \<open>relaxed\<close>. Setting the durability of
  an instance to \<open>d\<close> changes the calls of \<open>execute\<close> in one place only: the
  option of the transaction it opens, which is the configured value. The requests and
  their sources, the error thrown or the handlers registered, the promise for every
  sequence of events, and what the engine does with the calls (its events and the
  database afterwards) are the same. The engine is the one modelled from the
  specification, which never reads the option.
\<close>

theorem durability_only_in_transaction_option:
  "(DbAction_constructor act h n = Inr t \<longrightarrow> durability t = ''relaxed'')
   \<and> calls (execute_src (this\<lparr>durability := d\<rparr>)) = map (with_durability d) (calls (execute_src this))
   \<and> map (with_durability (durability this)) (calls (execute_src this)) = calls (execute_src this)
   \<and> requests (calls (execute_src (this\<lparr>durability := d\<rparr>))) = requests (calls (execute_src this))
   \<and> outcome (execute_src (this\<lparr>durability := d\<rparr>)) = outcome (execute_src this)
   \<and> settle (execute_src (this\<lparr>durability := d\<rparr>)) evs = settle (execute_src this) evs
   \<and> engine_run f db (calls (execute_src (this\<lparr>durability := d\<rparr>))) =
       engine_run f db (calls (execute_src this))
   \<and> calls (execute_dist (this\<lparr>durability := d\<rparr>)) = map (with_durability d) (calls (execute_dist this))
   \<and> map (with_durability (durability this)) (calls (execute_dist this)) = calls (execute_dist this)
   \<and> requests (calls (execute_dist (this\<lparr>durability := d\<rparr>))) = requests (calls (execute_dist this))
   \<and> outcome (execute_dist (this\<lparr>durability := d\<rparr>)) = outcome (execute_dist this)
   \<and> settle (execute_dist (this\<lparr>durability := d\<rparr>)) evs = settle (execute_dist this) evs
   \<and> engine_run f db (calls (execute_dist (this\<lparr>durability := d\<rparr>))) =
       engine_run f db (calls (execute_dist this))"
proof -
  have c: "DbAction_constructor act h n = Inr t \<longrightarrow> durability t = ''relaxed''"
    by (auto simp: DbAction_constructor_def split: js_ref.splits js_value.splits if_splits)
  have s: "calls (execute_src (this\<lparr>durability := d\<rparr>)) = map (with_durability d) (calls (execute_src this))"
    "outcome (execute_src (this\<lparr>durability := d\<rparr>)) = outcome (execute_src this)" for d
    using durability_src [of d this] by (simp_all add: same_but_durability_def)
  have x: "calls (execute_dist (this\<lparr>durability := d\<rparr>)) = map (with_durability d) (calls (execute_dist this))"
    "outcome (execute_dist (this\<lparr>durability := d\<rparr>)) = outcome (execute_dist this)" for d
    using durability_dist [of d this] by (simp_all add: same_but_durability_def)
  have s0: "map (with_durability (durability this)) (calls (execute_src this)) = calls (execute_src this)"
    using s(1) [of "durability this"] by simp
  have x0: "map (with_durability (durability this)) (calls (execute_dist this)) = calls (execute_dist this)"
    using x(1) [of "durability this"] by simp
  have sr: "requests (calls (execute_src (this\<lparr>durability := d\<rparr>))) = requests (calls (execute_src this))"
    by (simp add: s(1))
  have xr: "requests (calls (execute_dist (this\<lparr>durability := d\<rparr>))) = requests (calls (execute_dist this))"
    by (simp add: x(1))
  note se = settle_outcome [OF s(2)] settle_outcome [OF x(2)]
  note en = engine_run_requests [OF sr] engine_run_requests [OF xr]
  from c s [of d] x [of d] s0 x0 sr xr se en show ?thesis
    by simp
qed

theorem durability_only_in_transaction_option_witness:
  "DbAction_constructor ''WRITE'' (IDBDatabaseInstance test_db) (JStr ''users'') =
     Inr (new_action ''WRITE'')
   \<and> durability (new_action ''WRITE'') = ''relaxed''
   \<and> calls (execute_dist ((new_action ''WRITE'')\<lparr>updateDoc := alice, durability := ''strict''\<rparr>)) =
       [Transaction [''users''] Readwrite ''strict'', ObjectStore ''users'',
        Request (IDBObjectStore ''users'' users_store) (Add alice)]
   \<and> calls (execute_dist ((new_action ''WRITE'')\<lparr>updateDoc := alice\<rparr>)) =
       [Transaction [''users''] Readwrite ''relaxed'', ObjectStore ''users'',
        Request (IDBObjectStore ''users'' users_store) (Add alice)]"
proof -
  let ?w = "(new_action ''WRITE'')\<lparr>updateDoc := alice\<rparr>"
  have k: "DbAction_constructor ''WRITE'' (IDBDatabaseInstance test_db) (JStr ''users'') =
     Inr (new_action ''WRITE'')"
    by (simp add: DbAction_constructor_def new_action_def)
  have r: "calls (execute_dist ?w) =
       [Transaction [''users''] Readwrite ''relaxed'', ObjectStore ''users'',
        Request (IDBObjectStore ''users'' users_store) (Add alice)]"
    by (simp add: execute_dist_def executeWrite_dist_def resolveStoreOrIndex_dist_def
        resolveStoreOrIndex_def Let_def new_action_def test_db_def alice_def action_names
        issue_def users_store_def extract_key_def evaluate_key_path_def)
  from durability_only_in_transaction_option
    [where act = "''WRITE''" and h = "IDBDatabaseInstance test_db" and n = "JStr ''users''"
       and t = "new_action ''WRITE''" and this = ?w and d = "''strict''"] k r
  show ?thesis by simp
qed

section \<open>When the promise settles\<close>

lemma fire_settled:
  "p \<noteq> Pending \<Longrightarrow> fst (fire cb ev (p, r)) = p"
  by (cases ev; cases p) (simp_all split: on_success.split on_complete.split)

lemma deliver_settled:
  "p \<noteq> Pending \<Longrightarrow> fst (deliver cb evs (p, r)) = p"
proof (induction evs arbitrary: r)
  case Nil
  then show ?case by simp
next
  case (Cons ev evs)
  obtain p' r' where f: "fire cb ev (p, r) = (p', r')"
    by (cases "fire cb ev (p, r)")
  with fire_settled [OF Cons.prems, of cb ev r] have "p' = p" by simp
  with Cons f show ?case by simp
qed

lemma gated_resolved:
  assumes "request_onsuccess cb = SuccessUnset \<or> request_onsuccess cb = SuccessStoreResult"
    and "fst (deliver cb evs (Pending, r)) = Resolved v"
  shows "TransactionComplete \<in> set evs"
  using assms(2)
proof (induction evs arbitrary: r)
  case Nil
  then show ?case by simp
next
  case (Cons ev evs)
  show ?case
  proof (cases ev)
    case (RequestSuccess x)
    with assms(1) Cons show ?thesis by auto
  next
    case (RequestError e)
    with Cons.prems show ?thesis by (simp add: deliver_settled)
  next
    case TransactionComplete
    then show ?thesis by simp
  next
    case (TransactionError e)
    with Cons show ?thesis by (auto simp: deliver_settled split: if_splits)
  next
    case (TransactionAbort e)
    with Cons show ?thesis by (auto simp: deliver_settled split: if_splits)
  qed
qed

lemma stored_resolved:
  assumes "request_onsuccess cb = SuccessStoreResult"
    and "transaction_oncomplete cb = CompleteResolveStored"
    and "fst (deliver cb evs (Pending, r)) = Resolved v"
  shows "\<exists>pre post. evs = pre @ TransactionComplete # post \<and> v \<noteq> ResultUndefined \<and>
           (RequestSuccess v \<in> set pre \<or> v = r)"
  using assms(3)
proof (induction evs arbitrary: r)
  case Nil
  then show ?case by simp
next
  case (Cons ev evs)
  show ?case
  proof (cases ev)
    case (RequestSuccess x)
    with assms(1) Cons.prems have "fst (deliver cb evs (Pending, x)) = Resolved v" by simp
    from Cons.IH [OF this] obtain pre post where
      "evs = pre @ TransactionComplete # post" "v \<noteq> ResultUndefined"
      "RequestSuccess v \<in> set pre \<or> v = x" by blast
    with RequestSuccess have "ev # evs = (ev # pre) @ TransactionComplete # post \<and>
        v \<noteq> ResultUndefined \<and> (RequestSuccess v \<in> set (ev # pre) \<or> v = r)" by auto
    then show ?thesis by blast
  next
    case (RequestError e)
    with Cons.prems show ?thesis by (simp add: deliver_settled)
  next
    case TransactionComplete
    with assms(2) Cons.prems have "r \<noteq> ResultUndefined \<and> v = r"
      by (auto simp: deliver_settled split: if_splits)
    with TransactionComplete have "ev # evs = [] @ TransactionComplete # evs \<and>
        v \<noteq> ResultUndefined \<and> (RequestSuccess v \<in> set [] \<or> v = r)" by simp
    then show ?thesis by blast
  next
    case (TransactionError e)
    with Cons.prems have "fst (deliver cb evs (Pending, r)) = Resolved v"
      by (auto simp: deliver_settled split: if_splits)
    from Cons.IH [OF this] obtain pre post where
      "evs = pre @ TransactionComplete # post" "v \<noteq> ResultUndefined"
      "RequestSuccess v \<in> set pre \<or> v = r" by blast
    then have "ev # evs = (ev # pre) @ TransactionComplete # post \<and>
        v \<noteq> ResultUndefined \<and> (RequestSuccess v \<in> set (ev # pre) \<or> v = r)" by auto
    then show ?thesis by blast
  next
    case (TransactionAbort e)
    with Cons.prems have "fst (deliver cb evs (Pending, r)) = Resolved v"
      by (auto simp: deliver_settled split: if_splits)
    from Cons.IH [OF this] obtain pre post where
      "evs = pre @ TransactionComplete # post" "v \<noteq> ResultUndefined"
      "RequestSuccess v \<in> set pre \<or> v = r" by blast
    then have "ev # evs = (ev # pre) @ TransactionComplete # post \<and>
        v \<noteq> ResultUndefined \<and> (RequestSuccess v \<in> set (ev # pre) \<or> v = r)" by auto
    then show ?thesis by blast
  qed
qed

lemma abort_supersedes:
  assumes "request_onsuccess cb = SuccessUnset \<or> request_onsuccess cb = SuccessStoreResult"
    and "transaction_onabort cb" and "transaction_onerror cb"
  shows "fst (deliver cb (map RequestSuccess rs @ TransactionAbort e # post) (Pending, r)) = Rejected e"
    and "fst (deliver cb (map RequestSuccess rs @ TransactionError e # post) (Pending, r)) = Rejected e"
  using assms by (induction rs arbitrary: r) (auto simp: deliver_settled)

lemma gated_executeRead_dist:
  "outcome (executeRead_dist this) = Inr cb \<Longrightarrow>
   request_onsuccess cb = SuccessStoreResult \<and> transaction_oncomplete cb = CompleteResolveStored
   \<and> transaction_onerror cb \<and> transaction_onabort cb"
  by (auto simp: executeRead_dist_def issue_def split: prod.splits sum.splits option.splits)

lemma gated_executeWrite_dist:
  "outcome (executeWrite_dist this) = Inr cb \<Longrightarrow>
   request_onsuccess cb = SuccessUnset \<and> transaction_onerror cb \<and> transaction_onabort cb"
  by (auto simp: executeWrite_dist_def issue_def split: prod.splits sum.splits option.splits if_splits)

lemma gated_executeUpdate_dist:
  "outcome (executeUpdate_dist this) = Inr cb \<Longrightarrow>
   request_onsuccess cb = SuccessUnset \<and> transaction_onerror cb \<and> transaction_onabort cb"
  by (auto simp: executeUpdate_dist_def issue_def split: prod.splits sum.splits option.splits if_splits key_path.splits)

lemma gated_executeDelete_dist:
  "outcome (executeDelete_dist this) = Inr cb \<Longrightarrow>
   request_onsuccess cb = SuccessUnset \<and> transaction_onerror cb \<and> transaction_onabort cb"
  by (auto simp: executeDelete_dist_def issue_def split: prod.splits sum.splits option.splits if_splits)

lemma gated_executeClear_dist:
  "outcome (executeClear_dist this) = Inr cb \<Longrightarrow>
   request_onsuccess cb = SuccessUnset \<and> transaction_onerror cb \<and> transaction_onabort cb"
  by (auto simp: executeClear_dist_def issue_def split: prod.splits sum.splits option.splits if_splits)

lemma gated_dist:
  "outcome (execute_dist this) = Inr cb \<Longrightarrow>
   (request_onsuccess cb = SuccessUnset \<or> request_onsuccess cb = SuccessStoreResult)
   \<and> transaction_onerror cb \<and> transaction_onabort cb"
  by (auto simp: execute_dist_def split: if_splits
      dest: gated_executeRead_dist gated_executeWrite_dist gated_executeUpdate_dist
        gated_executeDelete_dist gated_executeClear_dist)

text \<open>
  The compiled file waits for the transaction. Whatever the action and whatever the
  engine delivers, its promise is resolved only after \<open>complete\<close>; a READ is
  resolved with a result that a \<open>success\<close> delivered before that; and an
  \<open>abort\<close> or \<open>error\<close> of the transaction that arrives after nothing but
  successes rejects the promise with the transaction's error.
\<close>

lemma dist_resolves_only_after_complete:
  assumes "settle (execute_dist this) evs = Resolved v"
  shows "TransactionComplete \<in> set evs"
proof (cases "outcome (execute_dist this)")
  case (Inl e)
  with assms show ?thesis by (simp add: settle_def)
next
  case (Inr cb)
  with assms have "fst (deliver cb evs (Pending, ResultUndefined)) = Resolved v"
    by (simp add: settle_def)
  with gated_dist [OF Inr] show ?thesis
    by (blast intro: gated_resolved)
qed

lemma dist_read_resolves_with_result_after_complete:
  assumes "action this = DB_ACTIONS_READ" and "settle (execute_dist this) evs = Resolved v"
  shows "\<exists>pre post. evs = pre @ TransactionComplete # post \<and> RequestSuccess v \<in> set pre"
proof (cases "outcome (execute_dist this)")
  case (Inl e)
  with assms show ?thesis by (simp add: settle_def)
next
  case (Inr cb)
  with assms(2) have d: "fst (deliver cb evs (Pending, ResultUndefined)) = Resolved v"
    by (simp add: settle_def)
  from Inr assms(1) have "outcome (executeRead_dist this) = Inr cb"
    by (simp add: execute_dist_def)
  from gated_executeRead_dist [OF this] stored_resolved [OF _ _ d] show ?thesis
    by blast
qed

lemma dist_transaction_failure_supersedes:
  assumes "outcome (execute_dist this) = Inr cb"
  shows "settle (execute_dist this) (map RequestSuccess rs @ TransactionAbort e # post) = Rejected e"
    and "settle (execute_dist this) (map RequestSuccess rs @ TransactionError e # post) = Rejected e"
  using gated_dist [OF assms] assms by (simp_all add: settle_def abort_supersedes)

text \<open>
  C1. A WRITE is to resolve only once its transaction has completed. The compiled file
  does so (above); the TypeScript source does not wait. For \<open>WRITE\<close> of a
  document into the test store, its promise is resolved as soon as the request's
  \<open>success\<close> arrives, with no \<open>complete\<close> delivered, and stays
  resolved when the transaction then aborts. The compiled file is still pending after the
  \<open>success\<close> and rejects on the abort.
\<close>

theorem write_src_resolves_without_completion:
  "settle (execute_src ((new_action ''WRITE'')\<lparr>updateDoc := alice\<rparr>))
     [RequestSuccess (ResultKey (JStr ''1''))] = Resolved ResultUndefined
   \<and> settle (execute_src ((new_action ''WRITE'')\<lparr>updateDoc := alice\<rparr>))
     [RequestSuccess (ResultKey (JStr ''1'')),
      TransactionAbort (Some (DOMException ''QuotaExceededError''))] = Resolved ResultUndefined
   \<and> settle (execute_dist ((new_action ''WRITE'')\<lparr>updateDoc := alice\<rparr>))
     [RequestSuccess (ResultKey (JStr ''1''))] = Pending
   \<and> settle (execute_dist ((new_action ''WRITE'')\<lparr>updateDoc := alice\<rparr>))
     [RequestSuccess (ResultKey (JStr ''1'')),
      TransactionAbort (Some (DOMException ''QuotaExceededError''))] =
       Rejected (Some (DOMException ''QuotaExceededError''))"
  by (simp add: settle_def execute_src_def execute_dist_def executeWrite_src_def
      executeWrite_dist_def resolveStoreOrIndex_dist_def resolveStoreOrIndex_def Let_def
      new_action_def test_db_def alice_def action_names returns_def issue_def users_store_def
      extract_key_def evaluate_key_path_def)

text \<open>
  C2. A READ is to resolve only after both the request's success and the transaction's
  completion, and to reject with the transaction's error when the transaction fails. The
  compiled file does so (above). The TypeScript source resolves with the rows at the
  request's \<open>success\<close>, before any \<open>complete\<close>, and an abort of
  the transaction after that does not reject the promise. The compiled file is pending
  after the \<open>success\<close>, rejects with the transaction's error on the abort and
  resolves with the rows on \<open>complete\<close>.
\<close>

theorem read_src_ignores_transaction_failure:
  "settle (execute_src (new_action ''READ''))
     [RequestSuccess (ResultRows [alice])] = Resolved (ResultRows [alice])
   \<and> settle (execute_src (new_action ''READ''))
     [RequestSuccess (ResultRows [alice]),
      TransactionAbort (Some (DOMException ''AbortError''))] = Resolved (ResultRows [alice])
   \<and> settle (execute_dist (new_action ''READ''))
     [RequestSuccess (ResultRows [alice])] = Pending
   \<and> settle (execute_dist (new_action ''READ''))
     [RequestSuccess (ResultRows [alice]),
      TransactionAbort (Some (DOMException ''AbortError''))] =
       Rejected (Some (DOMException ''AbortError''))
   \<and> settle (execute_dist (new_action ''READ''))
     [RequestSuccess (ResultRows [alice]), TransactionComplete] = Resolved (ResultRows [alice])"
  by (simp add: settle_def execute_src_def execute_dist_def executeRead_src_def
      executeRead_dist_def resolveStoreOrIndex_dist_def resolveStoreOrIndex_def Let_def
      new_action_def test_db_def action_names returns_def issue_def)

section \<open>Writing, then reading\<close>

















text \<open>
  A WRITE of the compiled file that reports success has completed its transaction. The
  TypeScript source can report success for a WRITE that the engine then rolls back (C1),
  so the round trip below is stated for a WRITE whose transaction completed.
\<close>

lemma dist_resolved_run_is_complete:
  assumes "run_execute execute_dist fw this = (Resolved v, evs, db')"
  shows "TransactionComplete \<in> set evs"
proof -
  from assms have "settle (execute_dist this) evs = Resolved v"
    by (auto simp: run_execute_def split: prod.splits)
  then show ?thesis by (rule dist_resolves_only_after_complete)
qed

lemma src_resolved_write_rolled_back:
  "run_execute execute_src (CommitFails None) ((new_action ''WRITE'')\<lparr>updateDoc := alice\<rparr>) =
     (Resolved ResultUndefined,
      [RequestSuccess (ResultKey (JStr ''1'')), TransactionAbort None], test_db)"
  by (simp add: run_execute_def engine_run_def settle_def execute_src_def
      executeWrite_src_def resolveStoreOrIndex_def Let_def
      issue_def returns_def new_action_def test_db_def users_store_def alice_def
      extract_key_def evaluate_key_path_def action_names)




end
